theory Spec2Isabelle
  imports Main
begin

section \<open>The narrative engine of \<^verbatim>\<open>swimming_star_game.py\<close>\<close>

text \<open>
  The script is a turn-based text adventure. One mutable \<^verbatim>\<open>GameState\<close> is threaded
  through every handler, the player's lines are read from standard input and
  the narrative is printed to standard output. The embedding makes the three
  effects explicit: a \<open>world\<close> carries the game state, the lines printed so far and
  the lines still to be read, and a computation either finishes with a value or is cut
  short by a Python exception, in both cases leaving a world behind.

  Characters are code points below 256, which covers every string the script stores in
  its state (skill and ally names). Texts that are only ever printed are represented by
  one constructor per \<^verbatim>\<open>print_wrapped\<close> call, with the interpolated values as arguments;
  the line wrapping done by \<^verbatim>\<open>textwrap.fill\<close> is not represented.
\<close>

subsection \<open>Exceptions\<close>

datatype exit = ValueError | KeyError | EOFError | SystemExit

subsection \<open>EnergyPool\<close>

record EnergyPool =
  current :: int
  maximum :: int

definition can_spend :: "EnergyPool \<Rightarrow> int \<Rightarrow> bool" where
  "can_spend self amount = (current self \<ge> amount)"

text \<open>\<^verbatim>\<open>spend\<close> returns the boolean and the pool as mutated; a raise leaves the pool as it was.\<close>

definition spend :: "EnergyPool \<Rightarrow> int \<Rightarrow> exit + (bool \<times> EnergyPool)" where
  "spend self amount =
     (if amount < 0 then Inl ValueError
      else if \<not> can_spend self amount then Inr (False, self\<lparr>current := 0\<rparr>)
      else Inr (True, self\<lparr>current := current self - amount\<rparr>))"

definition restore :: "EnergyPool \<Rightarrow> int \<Rightarrow> exit + EnergyPool" where
  "restore self amount =
     (if amount < 0 then Inl ValueError
      else Inr (self\<lparr>current := min (maximum self) (current self + amount)\<rparr>))"

definition is_depleted :: "EnergyPool \<Rightarrow> bool" where
  "is_depleted self = (current self \<le> 0)"

subsection \<open>GameState\<close>

record GameState =
  energy :: EnergyPool
  skills :: "string list"
  allies :: "string list"
  negative_influence :: int
  entity_presence :: int
  entity_trust :: int
  rest_count :: int

text \<open>\<^verbatim>\<open>GameState(energy=EnergyPool(current=10, maximum=12))\<close>, the state \<^verbatim>\<open>main\<close> starts from.\<close>

definition initial_state :: GameState where
  "initial_state =
     \<lparr>energy = \<lparr>current = 10, maximum = 12\<rparr>, skills = [], allies = [],
      negative_influence = 0, entity_presence = 3, entity_trust = 0, rest_count = 0\<rparr>"

subsection \<open>Printed text\<close>

text \<open>Literals that are only printed: skill descriptions, planet descriptions, the forms
  and narratives of the reincarnation stages.\<close>

datatype prose =
    D_solidarite | D_lullaby | D_lantern
  | D_chrysalis | D_forteresse | D_compas | D_tourmente
  | F_poussiere | F_goutte | F_comete | F_cellule | F_humaine
  | N_poussiere | N_goutte | N_comete | N_cellule | N_humaine

datatype question = Q_branch | Q_approach | Q_free | Q_advance

datatype label =
    L_invest string int | L_continue | L_rest
  | L_approach | L_keep_distance | L_ask_entity
  | L_resist | L_call_ally | L_rest_tension
  | L_listen | L_impulse | L_ask_help

datatype guidance = G_observe | G_same_frequency | G_fractures | G_heavy

datatype message =
    T_question question
  | T_enter_number | T_invalid_choice
  | T_farewell | T_extinguished
  | T_rebuild | T_floating | T_regained int int int | T_zenith
  | T_intro_supernova | T_intro_energy | T_intro_entity
  | T_tree | T_already_bright | T_flicker | T_nourish string | T_prose prose
  | T_energy_left int int | T_branches_watch | T_branches_vibrate
  | T_cat_approach | T_cat_halo string | T_cat_status int int "string list"
  | T_planet_warm string | T_energy int int | T_drains_too_much
  | T_exhausting string int | T_reserve int int | T_keep_distance
  | T_resist_fail | T_resist_ok
  | T_no_ally | T_ally_deflects string string
  | T_entity_lost | T_entity_voice | T_guidance guidance
  | T_travel_end
  | T_journey_intro | T_condense prose prose
  | T_entity_mute | T_listening | T_impulse | T_entity_absent | T_ask_help
  | T_clarity int int | T_gamble_cost int | T_gamble_luck int int int | T_gamble_slip
  | T_bolster | T_soothe | T_share_ally string | T_share_none
  | T_weave_allies "string list" | T_weave_alone | T_orchestrate int
  | T_beacon | T_entity_smiles | T_final int int nat | T_serene | T_shadows | T_thanks

text \<open>One element per call of \<^verbatim>\<open>print()\<close>, \<^verbatim>\<open>print_wrapped\<close>, the menu line
  \<^verbatim>\<open>print(f"  {index}. {label}")\<close>, and the prompt that \<^verbatim>\<open>input\<close> writes.\<close>

datatype line = Blank | Say message | Item nat label | Prompt string

subsection \<open>Computations\<close>

record world =
  gs :: GameState
  out :: "line list"
  inp :: "string list"

datatype 'a outcome = Done 'a world | Raised exit world

type_synonym 'a prog = "world \<Rightarrow> 'a outcome"

fun final :: "'a outcome \<Rightarrow> world" where
  "final (Done _ w) = w"
| "final (Raised _ w) = w"

definition return :: "'a \<Rightarrow> 'a prog" where
  "return a w = Done a w"

definition raise :: "exit \<Rightarrow> 'a prog" where
  "raise e w = Raised e w"

definition and_then :: "'a prog \<Rightarrow> ('a \<Rightarrow> 'b prog) \<Rightarrow> 'b prog" where
  "and_then m f w = (case m w of Raised e w' \<Rightarrow> Raised e w' | Done a w' \<Rightarrow> f a w')"

definition seq :: "unit prog \<Rightarrow> 'a prog \<Rightarrow> 'a prog" where
  "seq m k = and_then m (\<lambda>_. k)"

definition gets :: "(GameState \<Rightarrow> 'a) \<Rightarrow> 'a prog" where
  "gets f w = Done (f (gs w)) w"

definition modify :: "(GameState \<Rightarrow> GameState) \<Rightarrow> unit prog" where
  "modify f w = Done () (w\<lparr>gs := f (gs w)\<rparr>)"

definition emit :: "line \<Rightarrow> unit prog" where
  "emit l w = Done () (w\<lparr>out := out w @ [l]\<rparr>)"

definition print_blank :: "unit prog" where
  "print_blank = emit Blank"

definition print_wrapped :: "message \<Rightarrow> unit prog" where
  "print_wrapped message = emit (Say message)"

text \<open>An f-string is formatted from the state at the moment it is printed.\<close>

definition print_fmt :: "(GameState \<Rightarrow> message) \<Rightarrow> unit prog" where
  "print_fmt f = and_then (gets f) print_wrapped"

text \<open>\<^verbatim>\<open>state.energy.spend(amount)\<close> and \<^verbatim>\<open>state.energy.restore(amount)\<close> on the state of the world.\<close>

definition energy_spend :: "int \<Rightarrow> bool prog" where
  "energy_spend amount w =
     (case spend (energy (gs w)) amount of
        Inl e \<Rightarrow> Raised e w
      | Inr (ok, p) \<Rightarrow> Done ok (w\<lparr>gs := (gs w)\<lparr>energy := p\<rparr>\<rparr>))"

definition energy_restore :: "int \<Rightarrow> unit prog" where
  "energy_restore amount w =
     (case restore (energy (gs w)) amount of
        Inl e \<Rightarrow> Raised e w
      | Inr p \<Rightarrow> Done () (w\<lparr>gs := (gs w)\<lparr>energy := p\<rparr>\<rparr>))"

subsection \<open>farewell, check\_energy, rest\<close>

definition farewell :: "'a prog" where
  "farewell = seq (print_wrapped T_farewell) (raise SystemExit)"

definition check_energy :: "unit prog" where
  "check_energy =
     and_then (gets (\<lambda>s. is_depleted (energy s))) (\<lambda>depleted.
       if depleted then seq print_blank (seq (print_wrapped T_extinguished) (raise SystemExit))
       else return ())"

definition rest :: "message option \<Rightarrow> unit prog" where
  "rest reason =
     seq (modify (\<lambda>s. s\<lparr>rest_count := rest_count s + 1\<rparr>))
    (seq (case reason of Some r \<Rightarrow> print_wrapped r | None \<Rightarrow> return ())
    (seq (print_wrapped T_floating)
    (and_then (gets (\<lambda>s. current (energy s))) (\<lambda>before.
     seq (energy_restore 4)
    (and_then (gets (\<lambda>s. current (energy s))) (\<lambda>after.
     let gained = after - before in
     seq (if gained > 0
          then print_fmt (\<lambda>s. T_regained gained after (maximum (energy s)))
          else print_wrapped T_zenith)
         (modify (\<lambda>s. s\<lparr>entity_presence := min (entity_presence s + 1) 4\<rparr>))))))))"

subsection \<open>Planet encounters: the helpers\<close>

record PlanetEncounter =
  name :: string
  disposition :: string
  description :: prose
  reward :: int
  penalty :: int

definition is_beneficial :: "PlanetEncounter \<Rightarrow> bool" where
  "is_beneficial self = (disposition self = ''benefique'')"

definition resist_exhausting_planet :: "unit prog" where
  "resist_exhausting_planet =
     and_then (gets (\<lambda>s. can_spend (energy s) 2)) (\<lambda>ok.
       if \<not> ok then
         seq (print_wrapped T_resist_fail) (seq (rest None) check_energy)
       else
         seq (and_then (energy_spend 2) (\<lambda>_. return ()))
        (seq (modify (\<lambda>s. s\<lparr>negative_influence := max 0 (negative_influence s - 1)\<rparr>))
        (seq (print_wrapped T_resist_ok)
        (seq (print_fmt (\<lambda>s. T_energy_left (current (energy s)) (maximum (energy s))))
             check_energy))))"

definition call_allies_against_planet :: "PlanetEncounter \<Rightarrow> unit prog" where
  "call_allies_against_planet encounter =
     and_then (gets allies) (\<lambda>al.
       case al of
         [] \<Rightarrow> print_wrapped T_no_ally
       | ally # others \<Rightarrow>
           seq (modify (\<lambda>s. s\<lparr>allies := others\<rparr>))
          (seq (modify (\<lambda>s. s\<lparr>negative_influence := max 0 (negative_influence s - 1)\<rparr>))
          (seq (modify (\<lambda>s. s\<lparr>entity_presence := min (entity_presence s + 1) 4\<rparr>))
               (print_wrapped (T_ally_deflects ally (name encounter))))))"

definition consult_wise_entity :: "PlanetEncounter option \<Rightarrow> unit prog" where
  "consult_wise_entity encounter =
     and_then (gets entity_presence) (\<lambda>presence.
       if presence \<le> 0 then print_wrapped T_entity_lost
       else
         seq (modify (\<lambda>s. s\<lparr>entity_trust := entity_trust s + 1\<rparr>))
        (and_then (gets negative_influence) (\<lambda>influence.
         let guidance =
               [case encounter of
                  None \<Rightarrow> G_observe
                | Some e \<Rightarrow> if is_beneficial e then G_same_frequency else G_fractures]
               @ (if influence > 1 then [G_heavy] else [])
         in seq (print_wrapped T_entity_voice)
                (foldr (\<lambda>g k. seq (print_wrapped (T_guidance g)) k) guidance (return ())))))"

subsection \<open>Strings: strip, lower, isdigit, int\<close>

text \<open>\<^verbatim>\<open>str.strip()\<close> removes the characters Python counts as whitespace; below 256 these
  are the code points 9 to 13, 28 to 32, 133 and 160.\<close>

definition isspace :: "char \<Rightarrow> bool" where
  "isspace c = (let n = (of_char c :: nat) in
     (9 \<le> n \<and> n \<le> 13) \<or> (28 \<le> n \<and> n \<le> 32) \<or> n = 133 \<or> n = 160)"

definition strip :: "string \<Rightarrow> string" where
  "strip s = rev (dropWhile isspace (rev (dropWhile isspace s)))"

text \<open>\<^verbatim>\<open>str.lower()\<close> below 256: A to Z, and the accented capitals 192 to 222 but for the
  multiplication sign 215, move up by 32.\<close>

definition lower_char :: "char \<Rightarrow> char" where
  "lower_char c = (let n = (of_char c :: nat) in
     if (65 \<le> n \<and> n \<le> 90) \<or> (192 \<le> n \<and> n \<le> 222 \<and> n \<noteq> 215) then char_of (n + 32) else c)"

definition lower :: "string \<Rightarrow> string" where
  "lower s = map lower_char s"

text \<open>\<^verbatim>\<open>str.isdigit()\<close> accepts the ten decimal digits and, below 256, the superscripts
  178, 179 and 185; \<^verbatim>\<open>int\<close> accepts only the decimal digits of those and raises
  \<^verbatim>\<open>ValueError\<close> on the superscripts. The bound that recent versions of Python put
  on the number of digits \<^verbatim>\<open>int\<close> converts is not represented.\<close>

definition is_decimal_char :: "char \<Rightarrow> bool" where
  "is_decimal_char c = (let n = (of_char c :: nat) in 48 \<le> n \<and> n \<le> 57)"

definition is_digit_char :: "char \<Rightarrow> bool" where
  "is_digit_char c = (let n = (of_char c :: nat) in
     (48 \<le> n \<and> n \<le> 57) \<or> n = 178 \<or> n = 179 \<or> n = 185)"

definition isdigit :: "string \<Rightarrow> bool" where
  "isdigit s = (s \<noteq> [] \<and> list_all is_digit_char s)"

definition int_of_str :: "string \<Rightarrow> int option" where
  "int_of_str s =
     (if s \<noteq> [] \<and> list_all is_decimal_char s
      then Some (foldl (\<lambda>acc c. 10 * acc + (int (of_char c) - 48)) 0 s)
      else None)"

subsection \<open>prompt\_choice\<close>

text \<open>\<^verbatim>\<open>input(prompt)\<close>: the prompt is written, one line is taken; at end of input
  \<^verbatim>\<open>EOFError\<close> is raised.\<close>

definition input :: "string \<Rightarrow> string prog" where
  "input prompt w =
     (let w1 = w\<lparr>out := out w @ [Prompt prompt]\<rparr> in
      case inp w1 of
        [] \<Rightarrow> Raised EOFError w1
      | l # ls \<Rightarrow> Done l (w1\<lparr>inp := ls\<rparr>))"

text \<open>The question followed by the numbered labels, \<^verbatim>\<open>enumerate(choices, start=1)\<close>.\<close>

definition menu :: "question \<Rightarrow> (label \<times> 'a prog) list \<Rightarrow> line list" where
  "menu question choices =
     Say (T_question question)
       # map (\<lambda>(index, (lbl, _)). Item index lbl) (zip [1 ..< Suc (length choices)] choices)"

text \<open>
  A handler is a closure that may assign to variables of the enclosing function
  (\<^verbatim>\<open>nonlocal resolved\<close>, the \<^verbatim>\<open>finished\<close> cell, the \<^verbatim>\<open>acquired\<close> set). Here a handler
  returns the values of those variables after it ran, and \<open>prompt_choice\<close> hands them
  on. Each turn of the \<^verbatim>\<open>while True\<close> loop takes one line, so the loop is a recursion on
  the remaining input; the \<^verbatim>\<open>except EOFError\<close> clause is the empty case.
\<close>

function prompt_choice :: "question \<Rightarrow> (label \<times> 'a prog) list \<Rightarrow> 'a prog" where
  "prompt_choice question choices w =
     (let w1 = w\<lparr>out := out w @ menu question choices @ [Prompt ''> '']\<rparr> in
      case inp w1 of
        [] \<Rightarrow> farewell w1
      | l # ls \<Rightarrow>
          (let raw = strip l; w2 = w1\<lparr>inp := ls\<rparr> in
           if lower raw \<in> {''quit'', ''exit''} then farewell w2
           else if \<not> isdigit raw then
             prompt_choice question choices (w2\<lparr>out := out w2 @ [Say T_enter_number]\<rparr>)
           else
             (case int_of_str raw of
                None \<Rightarrow> Raised ValueError w2
              | Some v \<Rightarrow>
                  if \<not> (1 \<le> v \<and> v \<le> int (length choices)) then
                    prompt_choice question choices (w2\<lparr>out := out w2 @ [Say T_invalid_choice]\<rparr>)
                  else snd (choices ! nat (v - 1)) w2)))"
  by pat_completeness auto
termination
  by (relation "measure (\<lambda>(q, cs, w). length (inp w))") auto

declare prompt_choice.simps [simp del]

subsection \<open>The skill tree\<close>

definition name_solidarite :: string where
  "name_solidarite = CHR 0xC9 # ''clat de Solidarit'' @ [CHR 0xE9]"

definition name_lullaby :: string where
  "name_lullaby = ''Berceuse R'' @ [CHR 0xE9] @ ''sonante''"

definition name_lantern :: string where
  "name_lantern = ''Lanternes de Guidage''"

text \<open>The dictionary \<^verbatim>\<open>skills\<close> of \<^verbatim>\<open>run_skill_tree\<close>, in insertion order: key, then
  name, description and cost.\<close>

definition skill_catalog :: "(string \<times> string \<times> prose \<times> int) list" where
  "skill_catalog =
     [(''solidarite'', name_solidarite, D_solidarite, 2),
      (''lullaby'', name_lullaby, D_lullaby, 2),
      (''lantern'', name_lantern, D_lantern, 3)]"

text \<open>\<^verbatim>\<open>learn\<close> reads and extends the set \<^verbatim>\<open>acquired\<close> of the enclosing function: it takes
  the set and returns it as it is after the call.\<close>

definition learn :: "string \<Rightarrow> string set \<Rightarrow> string set prog" where
  "learn skill_key acquired =
     (if skill_key \<in> acquired then
        seq (print_wrapped T_already_bright) (return acquired)
      else
        case map_of skill_catalog skill_key of
          None \<Rightarrow> raise KeyError
        | Some (nm, descr, cost) \<Rightarrow>
            and_then (gets (\<lambda>s. can_spend (energy s) cost)) (\<lambda>ok.
              if \<not> ok then
                seq (print_wrapped T_flicker)
               (seq (rest (Some T_rebuild))
               (seq check_energy (return acquired)))
              else
                seq (and_then (energy_spend cost) (\<lambda>_. return ()))
               (seq (modify (\<lambda>s. s\<lparr>skills := skills s @ [nm]\<rparr>))
               (seq (print_wrapped (T_nourish nm))
               (seq (print_wrapped (T_prose descr))
               (seq (print_fmt (\<lambda>s. T_energy_left (current (energy s)) (maximum (energy s))))
               (seq check_energy (return (insert skill_key acquired)))))))))"

text \<open>The handlers of one turn of the loop return the set \<^verbatim>\<open>acquired\<close> and the
  \<^verbatim>\<open>finished\<close> flag, which starts \<^verbatim>\<open>False\<close> at every turn.\<close>

definition continue_route :: "string set \<Rightarrow> (string set \<times> bool) prog" where
  "continue_route acquired = seq (print_wrapped T_branches_watch) (return (acquired, True))"

definition skill_options :: "string set \<Rightarrow> (label \<times> (string set \<times> bool) prog) list" where
  "skill_options acquired =
     map (\<lambda>(key, nm, _, cost).
            (L_invest nm cost, and_then (learn key acquired) (\<lambda>a. return (a, False))))
         skill_catalog
     @ (if acquired \<noteq> {} then [(L_continue, continue_route acquired)] else [])
     @ [(L_rest, seq (rest None) (return (acquired, False)))]"

subsection \<open>The cat planet\<close>

definition encounter_cat_planet :: "unit prog" where
  "encounter_cat_planet =
     seq print_blank
    (seq (print_wrapped T_cat_approach)
    (and_then (input ''Comment SwimmigStar nomme-t-elle ce monde ? > '') (\<lambda>l.
     let nm = (if strip l = [] then ''Ronronia'' else strip l) in
     seq (print_wrapped (T_cat_halo nm))
    (seq (modify (\<lambda>s. s\<lparr>allies := allies s @ [nm]\<rparr>))
    (seq (energy_restore 3)
    (seq (modify (\<lambda>s. s\<lparr>entity_presence := min (entity_presence s + 1) 4\<rparr>))
         (print_fmt (\<lambda>s. T_cat_status (current (energy s)) (maximum (energy s)) (allies s)))))))))"

subsection \<open>interact\_with\_planet\<close>

text \<open>The handlers assign to \<^verbatim>\<open>resolved\<close> of the enclosing function: they take its value
  and return it as it is after the call.\<close>

definition approach :: "PlanetEncounter \<Rightarrow> bool \<Rightarrow> bool prog" where
  "approach encounter resolved =
     (if is_beneficial encounter then
        seq (modify (\<lambda>s. s\<lparr>allies := allies s @ [name encounter]\<rparr>))
       (seq (energy_restore (reward encounter))
       (seq (print_wrapped (T_planet_warm (name encounter)))
       (seq (print_fmt (\<lambda>s. T_energy (current (energy s)) (maximum (energy s))))
            (return True))))
      else
        and_then (gets (\<lambda>s. can_spend (energy s) (penalty encounter))) (\<lambda>ok.
          if \<not> ok then
            seq (print_wrapped T_drains_too_much)
           (seq (and_then (energy_spend (penalty encounter)) (\<lambda>_. return ()))
           (seq check_energy (return resolved)))
          else
            seq (and_then (energy_spend (penalty encounter)) (\<lambda>_. return ()))
           (seq (modify (\<lambda>s. s\<lparr>negative_influence := negative_influence s + 1\<rparr>))
           (seq (modify (\<lambda>s. s\<lparr>entity_presence := max (entity_presence s - 1) 0\<rparr>))
           (seq (print_wrapped (T_exhausting (name encounter) (penalty encounter)))
           (seq (print_fmt (\<lambda>s. T_reserve (current (energy s)) (maximum (energy s))))
           (seq check_energy
           (seq (prompt_choice Q_free
                   [(L_resist, resist_exhausting_planet),
                    (L_call_ally, call_allies_against_planet encounter),
                    (L_rest_tension, rest None)])
                (return True)))))))))"

definition keep_distance :: "bool \<Rightarrow> bool prog" where
  "keep_distance resolved = seq (print_wrapped T_keep_distance) (return True)"

definition ask_entity :: "PlanetEncounter \<Rightarrow> bool \<Rightarrow> bool prog" where
  "ask_entity encounter resolved = seq (consult_wise_entity (Some encounter)) (return resolved)"

definition take_rest :: "unit prog" where
  "take_rest = rest None"

text \<open>The menu of \<^verbatim>\<open>interact_with_planet\<close>, with \<^verbatim>\<open>resolved = False\<close> before it; its value
  is \<^verbatim>\<open>resolved\<close> after the chosen handler.\<close>

definition planet_menu :: "PlanetEncounter \<Rightarrow> bool prog" where
  "planet_menu encounter =
     prompt_choice Q_approach
       [(L_approach, approach encounter False),
        (L_keep_distance, keep_distance False),
        (L_ask_entity, ask_entity encounter False),
        (L_rest, seq take_rest (return False))]"

text \<open>The lines after the menu: \<^verbatim>\<open>if not resolved: resolved = True\<close>, then the adjustment of
  \<^verbatim>\<open>entity_trust\<close>.\<close>

definition trust_adjustment :: "PlanetEncounter \<Rightarrow> bool \<Rightarrow> unit prog" where
  "trust_adjustment encounter resolved0 =
     (let resolved = (if \<not> resolved0 then True else resolved0) in
      and_then (gets negative_influence) (\<lambda>influence.
        if is_beneficial encounter \<and> resolved then
          modify (\<lambda>s. s\<lparr>entity_trust := entity_trust s + 1\<rparr>)
        else if \<not> is_beneficial encounter \<and> influence > 0 then
          modify (\<lambda>s. s\<lparr>entity_trust := max (entity_trust s - 1) (- 3)\<rparr>)
        else return ()))"

definition interact_with_planet :: "PlanetEncounter \<Rightarrow> unit prog" where
  "interact_with_planet encounter =
     seq print_blank
    (seq (print_wrapped (T_prose (description encounter)))
    (and_then (planet_menu encounter) (trust_adjustment encounter)))"

fun for_each :: "('a \<Rightarrow> unit prog) \<Rightarrow> 'a list \<Rightarrow> unit prog" where
  "for_each body [] = return ()"
| "for_each body (x # xs) = seq (body x) (for_each body xs)"

definition encounters :: "PlanetEncounter list" where
  "encounters =
     [\<lparr>name = ''Chrysalis d'' @ [CHR 0x27] @ ''Aurore'', disposition = ''benefique'',
       description = D_chrysalis, reward = 3, penalty = 3\<rparr>,
      \<lparr>name = ''Forteresse des '' @ [CHR 0xC9] @ ''chos'', disposition = ''epuisante'',
       description = D_forteresse, reward = 3, penalty = 3\<rparr>,
      \<lparr>name = ''Compas Cristallin'', disposition = ''benefique'',
       description = D_compas, reward = 3, penalty = 3\<rparr>,
      \<lparr>name = ''Tourmente Obscure'', disposition = ''epuisante'',
       description = D_tourmente, reward = 3, penalty = 3\<rparr>]"

text \<open>The last of the four, the one the examples below use.\<close>

definition tourmente :: PlanetEncounter where
  "tourmente = encounters ! 3"

definition travel_among_planets :: "unit prog" where
  "travel_among_planets =
     seq (for_each (\<lambda>encounter. seq (interact_with_planet encounter) check_energy) encounters)
         (print_wrapped T_travel_end)"

subsection \<open>The effects of the reincarnation stages\<close>

definition gain_clarity :: "int \<Rightarrow> unit prog" where
  "gain_clarity amount =
     seq (modify (\<lambda>s. s\<lparr>entity_trust := entity_trust s + 1\<rparr>))
    (seq (energy_restore amount)
    (seq (modify (\<lambda>s. s\<lparr>entity_presence := min (entity_presence s + 1) 4\<rparr>))
         (print_fmt (\<lambda>s. T_clarity (current (energy s)) (maximum (energy s))))))"

definition gamble_energy :: "int \<Rightarrow> int \<Rightarrow> unit prog" where
  "gamble_energy gain cost =
     and_then (gets (\<lambda>s. can_spend (energy s) cost)) (\<lambda>ok.
       if ok then
         seq (and_then (energy_spend cost) (\<lambda>_. return ()))
        (seq (print_wrapped (T_gamble_cost cost))
        (seq (energy_restore gain)
             (print_fmt (\<lambda>s. T_gamble_luck gain (current (energy s)) (maximum (energy s))))))
       else
         seq (print_wrapped T_gamble_slip)
        (seq (and_then (energy_spend cost) (\<lambda>_. return ()))
             check_energy))"

definition bolster_presence :: "unit prog" where
  "bolster_presence =
     seq (modify (\<lambda>s. s\<lparr>entity_presence := min (entity_presence s + 2) 4\<rparr>))
    (seq (energy_restore 1)
    (seq (print_wrapped T_bolster)
         (print_fmt (\<lambda>s. T_energy (current (energy s)) (maximum (energy s))))))"

definition soothe_influences :: "unit prog" where
  "soothe_influences =
     seq (modify (\<lambda>s. s\<lparr>negative_influence := max 0 (negative_influence s - 1)\<rparr>))
    (seq (energy_restore 2)
         (print_wrapped T_soothe))"

definition share_burden :: "unit prog" where
  "share_burden =
     and_then (gets allies) (\<lambda>al.
       if al \<noteq> [] then
         seq (print_wrapped (T_share_ally (last al))) (energy_restore 3)
       else
         seq (print_wrapped T_share_none) (energy_restore 1))"

definition weave_support :: "unit prog" where
  "weave_support =
     and_then (gets skills) (\<lambda>sk.
       let gained_allies =
             (if name_lantern \<in> set sk then [''Lanterniers du N'' @ [CHR 0xE9] @ ''ant''] else [])
             @ (if name_lullaby \<in> set sk then [''Chorale des Calmes''] else [])
       in seq (modify (\<lambda>s. s\<lparr>allies := allies s @ gained_allies\<rparr>))
         (seq (energy_restore 3)
              (if gained_allies \<noteq> [] then print_wrapped (T_weave_allies gained_allies)
               else print_wrapped T_weave_alone)))"

definition orchestrate_alliance :: "unit prog" where
  "orchestrate_alliance =
     and_then (gets (\<lambda>s. max 1 (int (length (allies s))))) (\<lambda>gained.
       seq (energy_restore gained)
      (seq (modify (\<lambda>s. s\<lparr>entity_trust := entity_trust s + 1\<rparr>))
           (print_wrapped (T_orchestrate gained))))"

definition conclude_journey :: "unit prog" where
  "conclude_journey =
     seq print_blank
    (seq (print_wrapped T_beacon)
    (seq (print_wrapped T_entity_smiles)
    (seq (print_fmt (\<lambda>s. T_final (current (energy s)) (maximum (energy s)) (length (allies s))))
    (seq (and_then (gets negative_influence) (\<lambda>influence.
            if influence = 0 then print_wrapped T_serene else print_wrapped T_shadows))
         (print_wrapped T_thanks)))))"

subsection \<open>reincarnation\_journey\<close>

record ReincarnationStage =
  form_name :: prose
  narrative :: prose
  listening_effect :: "unit prog"
  impulse_effect :: "unit prog"
  help_effect :: "unit prog"

definition stages :: "ReincarnationStage list" where
  "stages =
     [\<lparr>form_name = F_poussiere, narrative = N_poussiere,
       listening_effect = gain_clarity 2, impulse_effect = gamble_energy 2 1,
       help_effect = bolster_presence\<rparr>,
      \<lparr>form_name = F_goutte, narrative = N_goutte,
       listening_effect = gain_clarity 2, impulse_effect = gamble_energy 3 2,
       help_effect = soothe_influences\<rparr>,
      \<lparr>form_name = F_comete, narrative = N_comete,
       listening_effect = gain_clarity 3, impulse_effect = gamble_energy 4 3,
       help_effect = share_burden\<rparr>,
      \<lparr>form_name = F_cellule, narrative = N_cellule,
       listening_effect = gain_clarity 3, impulse_effect = gamble_energy 5 4,
       help_effect = weave_support\<rparr>,
      \<lparr>form_name = F_humaine, narrative = N_humaine,
       listening_effect = gain_clarity 4, impulse_effect = gamble_energy 6 5,
       help_effect = orchestrate_alliance\<rparr>]"

definition listen :: "ReincarnationStage \<Rightarrow> unit prog" where
  "listen stage =
     and_then (gets entity_presence) (\<lambda>presence.
       if presence \<le> 0 then print_wrapped T_entity_mute
       else seq (print_wrapped T_listening) (listening_effect stage))"

definition follow_impulse :: "ReincarnationStage \<Rightarrow> unit prog" where
  "follow_impulse stage = seq (print_wrapped T_impulse) (impulse_effect stage)"

definition ask_help :: "ReincarnationStage \<Rightarrow> unit prog" where
  "ask_help stage =
     and_then (gets entity_presence) (\<lambda>presence.
       if presence \<le> 0 then print_wrapped T_entity_absent
       else seq (print_wrapped T_ask_help) (help_effect stage))"

text \<open>The body of the \<^verbatim>\<open>for stage in stages\<close> loop.\<close>

definition run_stage :: "ReincarnationStage \<Rightarrow> unit prog" where
  "run_stage stage =
     seq print_blank
    (seq (print_wrapped (T_condense (form_name stage) (narrative stage)))
    (seq (prompt_choice Q_advance
            [(L_listen, listen stage),
             (L_impulse, follow_impulse stage),
             (L_ask_help, ask_help stage),
             (L_rest, take_rest)])
         check_energy))"

definition reincarnation_journey :: "unit prog" where
  "reincarnation_journey =
     seq print_blank
    (seq (print_wrapped T_journey_intro)
    (seq (for_each run_stage stages)
         conclude_journey))"

definition introduce_story :: "unit prog" where
  "introduce_story =
     seq (print_wrapped T_intro_supernova)
    (seq print_blank
    (seq (print_wrapped T_intro_energy)
    (seq print_blank
         (print_wrapped T_intro_entity))))"

subsection \<open>run\_skill\_tree\<close>

text \<open>
  The \<^verbatim>\<open>while True\<close> loop of \<^verbatim>\<open>run_skill_tree\<close> ends only through \<^verbatim>\<open>continue_route\<close>, an
  exception or the end of the input. Every turn reads at least one line and none of its
  handlers reads any, so the loop is a recursion on the length of the remaining input;
  the lemmas below are what its termination proof needs.
\<close>

lemmas prog_defs = return_def raise_def and_then_def seq_def gets_def modify_def emit_def
  print_blank_def print_wrapped_def print_fmt_def energy_spend_def energy_restore_def

definition keeps_input :: "'a prog \<Rightarrow> bool" where
  "keeps_input m = (\<forall>w. inp (final (m w)) = inp w)"

lemma keeps_input_return: "keeps_input (return a)"
  by (simp add: keeps_input_def return_def)

lemma keeps_input_raise: "keeps_input (raise e)"
  by (simp add: keeps_input_def raise_def)

lemma keeps_input_gets: "keeps_input (gets f)"
  by (simp add: keeps_input_def gets_def)

lemma keeps_input_modify: "keeps_input (modify f)"
  by (simp add: keeps_input_def modify_def)

lemma keeps_input_emit: "keeps_input (emit l)"
  by (simp add: keeps_input_def emit_def)

lemma keeps_input_and_then:
  assumes "keeps_input m" and "\<And>a. keeps_input (f a)"
  shows "keeps_input (and_then m f)"
  unfolding keeps_input_def
proof
  fix w
  show "inp (final (and_then m f w)) = inp w"
  proof (cases "m w")
    case (Done a w')
    with assms(1) have "inp w' = inp w" by (metis keeps_input_def final.simps(1))
    moreover from assms(2) have "inp (final (f a w')) = inp w'" by (simp add: keeps_input_def)
    ultimately show ?thesis using Done by (simp add: and_then_def)
  next
    case (Raised e w')
    with assms(1) have "inp w' = inp w" by (metis keeps_input_def final.simps(2))
    then show ?thesis using Raised by (simp add: and_then_def)
  qed
qed

lemma keeps_input_seq: "keeps_input m \<Longrightarrow> keeps_input k \<Longrightarrow> keeps_input (seq m k)"
  by (simp add: seq_def keeps_input_and_then)

lemma keeps_input_if: "keeps_input a \<Longrightarrow> keeps_input b \<Longrightarrow> keeps_input (if c then a else b)"
  by simp

lemma keeps_input_energy_spend: "keeps_input (energy_spend n)"
  by (simp add: keeps_input_def energy_spend_def split: sum.splits prod.splits)

lemma keeps_input_energy_restore: "keeps_input (energy_restore n)"
  by (simp add: keeps_input_def energy_restore_def split: sum.splits)

lemmas keeps_input_intros =
  keeps_input_return keeps_input_raise keeps_input_gets keeps_input_modify keeps_input_emit
  keeps_input_and_then keeps_input_seq keeps_input_energy_spend keeps_input_energy_restore

lemma keeps_input_print_wrapped: "keeps_input (print_wrapped t)"
  by (simp add: print_wrapped_def keeps_input_emit)

lemma keeps_input_print_blank: "keeps_input print_blank"
  by (simp add: print_blank_def keeps_input_emit)

lemma keeps_input_print_fmt: "keeps_input (print_fmt f)"
  by (simp add: print_fmt_def keeps_input_intros keeps_input_print_wrapped)

lemma keeps_input_check_energy: "keeps_input check_energy"
  unfolding check_energy_def
  by (intro keeps_input_intros keeps_input_if keeps_input_print_wrapped keeps_input_print_blank)

lemma keeps_input_rest: "keeps_input (rest reason)"
  unfolding rest_def Let_def
  by (cases reason)
     (auto intro!: keeps_input_intros keeps_input_print_wrapped keeps_input_print_fmt)

lemma keeps_input_learn: "keeps_input (learn k a)"
  unfolding learn_def
  by (auto intro!: keeps_input_intros keeps_input_print_wrapped keeps_input_print_fmt
        keeps_input_check_energy keeps_input_rest split: option.splits)

lemma keeps_input_skill_options:
  "h \<in> snd ` set (skill_options a) \<Longrightarrow> keeps_input h"
  unfolding skill_options_def skill_catalog_def continue_route_def
  by (auto intro!: keeps_input_intros keeps_input_print_wrapped keeps_input_learn keeps_input_rest)

lemma farewell_Raised: "farewell w = Raised SystemExit (w\<lparr>out := out w @ [Say T_farewell]\<rparr>)"
  by (simp add: farewell_def prog_defs)

lemma prompt_choice_consumes_aux:
  assumes keep: "\<And>h. h \<in> snd ` set choices \<Longrightarrow> keeps_input h"
  shows "inp w = xs \<Longrightarrow> prompt_choice q choices w = Done r w' \<Longrightarrow> length (inp w') < length xs"
proof (induction xs arbitrary: w)
  case Nil
  then show ?case
    by (simp add: prompt_choice.simps[of q choices w] farewell_Raised)
next
  case (Cons l ls)
  let ?w1 = "w\<lparr>out := out w @ menu q choices @ [Prompt ''> '']\<rparr>"
  let ?w2 = "?w1\<lparr>inp := ls\<rparr>"
  from Cons.prems(1) have step: "prompt_choice q choices w =
      (if lower (strip l) \<in> {''quit'', ''exit''} then farewell ?w2
       else if \<not> isdigit (strip l) then
         prompt_choice q choices (?w2\<lparr>out := out ?w2 @ [Say T_enter_number]\<rparr>)
       else (case int_of_str (strip l) of
               None \<Rightarrow> Raised ValueError ?w2
             | Some v \<Rightarrow>
                 if \<not> (1 \<le> v \<and> v \<le> int (length choices)) then
                   prompt_choice q choices (?w2\<lparr>out := out ?w2 @ [Say T_invalid_choice]\<rparr>)
                 else snd (choices ! nat (v - 1)) ?w2))"
    by (subst prompt_choice.simps) (simp add: Let_def)
  consider (quit) "lower (strip l) \<in> {''quit'', ''exit''}"
    | (nondigit) "lower (strip l) \<notin> {''quit'', ''exit''}" "\<not> isdigit (strip l)"
    | (noint) "lower (strip l) \<notin> {''quit'', ''exit''}" "isdigit (strip l)" "int_of_str (strip l) = None"
    | (range) v where "lower (strip l) \<notin> {''quit'', ''exit''}" "isdigit (strip l)"
        "int_of_str (strip l) = Some v" "\<not> (1 \<le> v \<and> v \<le> int (length choices))"
    | (call) v where "lower (strip l) \<notin> {''quit'', ''exit''}" "isdigit (strip l)"
        "int_of_str (strip l) = Some v" "1 \<le> v" "v \<le> int (length choices)"
    by (cases "int_of_str (strip l)") auto
  then show ?case
  proof cases
    case quit
    with step Cons.prems(2) show ?thesis by (simp add: farewell_Raised)
  next
    case nondigit
    with step Cons.prems(2) have
      "prompt_choice q choices (?w2\<lparr>out := out ?w2 @ [Say T_enter_number]\<rparr>) = Done r w'"
      by simp
    from Cons.IH[OF _ this] show ?thesis by simp
  next
    case noint
    with step Cons.prems(2) show ?thesis by simp
  next
    case (range v)
    with step Cons.prems(2) have
      "prompt_choice q choices (?w2\<lparr>out := out ?w2 @ [Say T_invalid_choice]\<rparr>) = Done r w'"
      by simp
    from Cons.IH[OF _ this] show ?thesis by simp
  next
    case (call v)
    with step Cons.prems(2) have run: "snd (choices ! nat (v - 1)) ?w2 = Done r w'"
      by simp
    from call have "nat (v - 1) < length choices" by simp
    then have "snd (choices ! nat (v - 1)) \<in> snd ` set choices" by simp
    from keep[OF this] have "inp (final (snd (choices ! nat (v - 1)) ?w2)) = inp ?w2"
      by (simp add: keeps_input_def)
    with run show ?thesis by simp
  qed
qed

lemma prompt_choice_consumes:
  assumes "\<And>h. h \<in> snd ` set choices \<Longrightarrow> keeps_input h"
    and "prompt_choice q choices w = Done r w'"
  shows "length (inp w') < length (inp w)"
  using prompt_choice_consumes_aux[OF assms(1) refl assms(2)] .

function skill_loop :: "string set \<Rightarrow> unit prog" where
  "skill_loop acquired w =
     (case prompt_choice Q_branch (skill_options acquired) w of
        Raised e w1 \<Rightarrow> Raised e w1
      | Done (acquired1, finished) w1 \<Rightarrow>
          if finished then Done () w1
          else (case check_energy w1 of
                  Raised e w2 \<Rightarrow> Raised e w2
                | Done _ w2 \<Rightarrow> skill_loop acquired1 w2))"
  by pat_completeness auto
termination
proof (relation "measure (\<lambda>(a, w). length (inp w))")
  show "wf (measure (\<lambda>(a, w). length (inp w)))" by simp
next
  fix acquired w x1 w1 acquired1 finished u w2
  assume a: "prompt_choice Q_branch (skill_options acquired) w = Done x1 w1"
    and b: "check_energy w1 = Done u w2"
  have "length (inp w1) < length (inp w)"
    using prompt_choice_consumes[OF keeps_input_skill_options a] .
  moreover have "inp w2 = inp w1"
    using keeps_input_check_energy b by (metis keeps_input_def final.simps(1))
  ultimately show "((acquired1, w2), acquired, w) \<in> measure (\<lambda>(a, w). length (inp w))"
    by simp
qed

declare skill_loop.simps [simp del]

definition run_skill_tree :: "unit prog" where
  "run_skill_tree =
     seq print_blank
    (seq (print_wrapped T_tree)
    (seq (skill_loop {})
         (print_wrapped T_branches_vibrate)))"

subsection \<open>main\<close>

definition main_prog :: "unit prog" where
  "main_prog =
     seq introduce_story
    (seq run_skill_tree
    (seq encounter_cat_planet
    (seq travel_among_planets
         reincarnation_journey)))"

text \<open>A run of the script on the lines \<open>input_lines\<close>. The handler of
  \<^verbatim>\<open>KeyboardInterrupt\<close> around \<^verbatim>\<open>main()\<close> is not represented: the input is a list of lines.\<close>

definition main :: "string list \<Rightarrow> unit outcome" where
  "main input_lines = main_prog \<lparr>gs = initial_state, out = [], inp = input_lines\<rparr>"

section \<open>Properties\<close>

subsection \<open>EnergyPool.spend\<close>

text \<open>
  Claim C1. For every pool and every integer amount, \<^verbatim>\<open>spend(amount)\<close> raises
  \<^verbatim>\<open>ValueError\<close> when the amount is negative; when the amount exceeds \<^verbatim>\<open>current\<close> it sets
  \<^verbatim>\<open>current\<close> to 0 and returns \<^verbatim>\<open>False\<close>; otherwise it deducts the amount and returns
  \<^verbatim>\<open>True\<close>. From 10/12, \<^verbatim>\<open>spend(3)\<close> succeeds and leaves 7; \<^verbatim>\<open>spend(20)\<close> then fails and
  leaves 0.
\<close>

theorem spend_contract:
  "(amount < 0 \<longrightarrow> spend p amount = Inl ValueError)
   \<and> (0 \<le> amount \<and> amount > current p \<longrightarrow> spend p amount = Inr (False, p\<lparr>current := 0\<rparr>))
   \<and> (0 \<le> amount \<and> amount \<le> current p \<longrightarrow>
        spend p amount = Inr (True, p\<lparr>current := current p - amount\<rparr>))
   \<and> spend \<lparr>current = 10, maximum = 12\<rparr> 3 = Inr (True, \<lparr>current = 7, maximum = 12\<rparr>)
   \<and> spend \<lparr>current = 7, maximum = 12\<rparr> 20 = Inr (False, \<lparr>current = 0, maximum = 12\<rparr>)"
  by (simp add: spend_def can_spend_def)

theorem spend_contract_witness:
  "spend \<lparr>current = 10, maximum = 12\<rparr> (- 1) = Inl ValueError
   \<and> spend \<lparr>current = 10, maximum = 12\<rparr> 11 = Inr (False, \<lparr>current = 0, maximum = 12\<rparr>)
   \<and> spend \<lparr>current = 10, maximum = 12\<rparr> 10 = Inr (True, \<lparr>current = 0, maximum = 12\<rparr>)"
  using spend_contract[of "- 1" "\<lparr>current = 10, maximum = 12\<rparr>"]
    spend_contract[of 11 "\<lparr>current = 10, maximum = 12\<rparr>"]
    spend_contract[of 10 "\<lparr>current = 10, maximum = 12\<rparr>"]
  by simp

subsection \<open>EnergyPool.restore\<close>

text \<open>
  Claim C9. \<^verbatim>\<open>restore(amount)\<close> raises \<^verbatim>\<open>ValueError\<close> for a negative amount and otherwise
  sets \<^verbatim>\<open>current\<close> to \<^verbatim>\<open>min(maximum, current + amount)\<close>; on a pool whose \<^verbatim>\<open>current\<close> equals
  \<^verbatim>\<open>maximum\<close> it changes nothing, whatever the non-negative amount.
\<close>

theorem restore_contract:
  "(amount < 0 \<longrightarrow> restore p amount = Inl ValueError)
   \<and> (0 \<le> amount \<longrightarrow>
        restore p amount = Inr (p\<lparr>current := min (maximum p) (current p + amount)\<rparr>))
   \<and> (0 \<le> amount \<and> current p = maximum p \<longrightarrow> restore p amount = Inr p)"
  by (simp add: restore_def min_def)

theorem restore_contract_witness:
  "restore \<lparr>current = 12, maximum = 12\<rparr> (- 2) = Inl ValueError
   \<and> restore \<lparr>current = 10, maximum = 12\<rparr> 1 = Inr \<lparr>current = 11, maximum = 12\<rparr>
   \<and> restore \<lparr>current = 12, maximum = 12\<rparr> 5 = Inr \<lparr>current = 12, maximum = 12\<rparr>"
  using restore_contract[of "- 2" "\<lparr>current = 12, maximum = 12\<rparr>"]
    restore_contract[of 1 "\<lparr>current = 10, maximum = 12\<rparr>"]
    restore_contract[of 5 "\<lparr>current = 12, maximum = 12\<rparr>"]
  by simp

subsection \<open>share\_burden\<close>

lemma share_burden_run:
  "share_burden w =
     Done () (w\<lparr>gs := (gs w)\<lparr>energy := (energy (gs w))\<lparr>current :=
                  min (maximum (energy (gs w)))
                      (current (energy (gs w)) + (if allies (gs w) \<noteq> [] then 3 else 1))\<rparr>\<rparr>,
               out := out w @ [Say (if allies (gs w) \<noteq> [] then T_share_ally (last (allies (gs w)))
                                    else T_share_none)]\<rparr>)"
  by (simp add: share_burden_def prog_defs restore_def)

definition burdened_world :: world where
  "burdened_world =
     \<lparr>gs = initial_state\<lparr>allies := [''Ronronia'']\<rparr>, out = [], inp = []\<rparr>"

text \<open>
  Claim C3, as stated: \<^verbatim>\<open>share_burden\<close> removes the last ally when the list is not empty.
  It does not: with the single ally Ronronia the list is the same after the call, not
  the list without its last element.
\<close>

theorem share_burden_keeps_last_ally:
  "allies (gs burdened_world) = [''Ronronia'']
   \<and> allies (gs (final (share_burden burdened_world))) = [''Ronronia'']
   \<and> allies (gs (final (share_burden burdened_world))) \<noteq> butlast (allies (gs burdened_world))"
  by (simp add: share_burden_run burdened_world_def)

text \<open>
  Claim C3, amended. \<^verbatim>\<open>share_burden\<close> never changes the ally list. When the list is not
  empty it names the last ally in its message and restores 3 energy, clamped to the
  maximum; when the list is empty it restores 1.
\<close>

theorem share_burden_effect:
  "allies (gs (final (share_burden w))) = allies (gs w)
   \<and> (allies (gs w) \<noteq> [] \<longrightarrow>
        share_burden w =
          Done () (w\<lparr>gs := (gs w)\<lparr>energy := (energy (gs w))\<lparr>current :=
                       min (maximum (energy (gs w))) (current (energy (gs w)) + 3)\<rparr>\<rparr>,
                    out := out w @ [Say (T_share_ally (last (allies (gs w))))]\<rparr>))
   \<and> (allies (gs w) = [] \<longrightarrow>
        share_burden w =
          Done () (w\<lparr>gs := (gs w)\<lparr>energy := (energy (gs w))\<lparr>current :=
                       min (maximum (energy (gs w))) (current (energy (gs w)) + 1)\<rparr>\<rparr>,
                    out := out w @ [Say T_share_none]\<rparr>))"
  by (simp add: share_burden_run)

theorem share_burden_effect_witness:
  "final (share_burden burdened_world) =
     \<lparr>gs = initial_state\<lparr>allies := [''Ronronia''], energy := \<lparr>current = 12, maximum = 12\<rparr>\<rparr>,
      out = [Say (T_share_ally ''Ronronia'')], inp = []\<rparr>
   \<and> final (share_burden (burdened_world\<lparr>gs := initial_state\<rparr>)) =
     \<lparr>gs = initial_state\<lparr>energy := \<lparr>current = 11, maximum = 12\<rparr>\<rparr>,
      out = [Say T_share_none], inp = []\<rparr>"
  using share_burden_effect[of burdened_world]
    share_burden_effect[of "burdened_world\<lparr>gs := initial_state\<rparr>"]
  by (simp add: burdened_world_def initial_state_def)

subsection \<open>check\_energy\<close>

lemma check_energy_run:
  "check_energy w =
     (if current (energy (gs w)) \<le> 0
      then Raised SystemExit (w\<lparr>out := out w @ [Blank, Say T_extinguished]\<rparr>)
      else Done () w)"
  by (simp add: check_energy_def is_depleted_def prog_defs)

subsection \<open>call\_allies\_against\_planet\<close>

text \<open>
  Claim C4. With an empty ally list \<^verbatim>\<open>call_allies_against_planet\<close> changes nothing in the
  state (energy, allies, negative influence, presence and trust are those of before) and
  only prints the no-ally message. With a non-empty list it removes the first ally,
  lowers \<^verbatim>\<open>negative_influence\<close> by one but not below 0, and raises \<^verbatim>\<open>entity_presence\<close> by
  one but not above 4.
\<close>

theorem call_allies_contract:
  "(allies (gs w) = [] \<longrightarrow>
      call_allies_against_planet encounter w = Done () (w\<lparr>out := out w @ [Say T_no_ally]\<rparr>))
   \<and> (allies (gs w) = ally # others \<longrightarrow>
      call_allies_against_planet encounter w =
        Done () (w\<lparr>gs := (gs w)\<lparr>allies := others,
                                  negative_influence := max 0 (negative_influence (gs w) - 1),
                                  entity_presence := min (entity_presence (gs w) + 1) 4\<rparr>,
                  out := out w @ [Say (T_ally_deflects ally (name encounter))]\<rparr>))"
  by (simp add: call_allies_against_planet_def prog_defs)

theorem call_allies_contract_witness:
  "call_allies_against_planet tourmente \<lparr>gs = initial_state, out = [], inp = []\<rparr> =
     Done () \<lparr>gs = initial_state, out = [Say T_no_ally], inp = []\<rparr>
   \<and> call_allies_against_planet tourmente
        \<lparr>gs = initial_state\<lparr>allies := [''Ronronia'', ''Compas Cristallin''],
                              negative_influence := 2, entity_presence := 4\<rparr>,
         out = [], inp = []\<rparr> =
     Done () \<lparr>gs = initial_state\<lparr>allies := [''Compas Cristallin''],
                                    negative_influence := 1, entity_presence := 4\<rparr>,
              out = [Say (T_ally_deflects ''Ronronia'' ''Tourmente Obscure'')], inp = []\<rparr>"
  using call_allies_contract[where w = "\<lparr>gs = initial_state, out = [], inp = []\<rparr>"
      and encounter = tourmente]
    call_allies_contract[where w = "\<lparr>gs = initial_state\<lparr>allies := [''Ronronia'', ''Compas Cristallin''],
                              negative_influence := 2, entity_presence := 4\<rparr>,
         out = [], inp = []\<rparr>" and ally = "''Ronronia''" and others = "[''Compas Cristallin'']"
      and encounter = tourmente]
  by (simp add: initial_state_def tourmente_def encounters_def)

subsection \<open>consult\_wise\_entity\<close>

text \<open>
  Claim C10. Consulting the entity touches \<^verbatim>\<open>entity_trust\<close> only. With
  \<^verbatim>\<open>entity_presence > 0\<close> it adds exactly 1 to \<^verbatim>\<open>entity_trust\<close>; with
  \<^verbatim>\<open>entity_presence <= 0\<close> it changes nothing and prints one message. In neither case are
  \<^verbatim>\<open>entity_presence\<close>, the energy, the allies or \<^verbatim>\<open>negative_influence\<close> changed.
\<close>

theorem consult_wise_entity_frame:
  "(entity_presence (gs w) \<le> 0 \<longrightarrow>
      consult_wise_entity encounter w = Done () (w\<lparr>out := out w @ [Say T_entity_lost]\<rparr>))
   \<and> (entity_presence (gs w) > 0 \<longrightarrow>
      consult_wise_entity encounter w =
        Done () (w\<lparr>gs := (gs w)\<lparr>entity_trust := entity_trust (gs w) + 1\<rparr>,
                  out := out w @ Say T_entity_voice #
                    map (\<lambda>g. Say (T_guidance g))
                      ((case encounter of
                          None \<Rightarrow> G_observe
                        | Some e \<Rightarrow> if is_beneficial e then G_same_frequency else G_fractures)
                       # (if negative_influence (gs w) > 1 then [G_heavy] else []))\<rparr>))"
  by (simp add: consult_wise_entity_def prog_defs)

theorem consult_wise_entity_frame_witness:
  "consult_wise_entity (Some tourmente)
      \<lparr>gs = initial_state\<lparr>entity_presence := 0\<rparr>, out = [], inp = []\<rparr> =
     Done () \<lparr>gs = initial_state\<lparr>entity_presence := 0\<rparr>, out = [Say T_entity_lost], inp = []\<rparr>
   \<and> consult_wise_entity (Some tourmente) \<lparr>gs = initial_state, out = [], inp = []\<rparr> =
     Done () \<lparr>gs = initial_state\<lparr>entity_trust := 1\<rparr>,
              out = [Say T_entity_voice, Say (T_guidance G_fractures)], inp = []\<rparr>"
  using consult_wise_entity_frame[where w = "\<lparr>gs = initial_state\<lparr>entity_presence := 0\<rparr>, out = [], inp = []\<rparr>"
      and encounter = "Some tourmente"]
    consult_wise_entity_frame[where w = "\<lparr>gs = initial_state, out = [], inp = []\<rparr>"
      and encounter = "Some tourmente"]
  by (simp add: initial_state_def tourmente_def encounters_def is_beneficial_def)

subsection \<open>Quitting at a prompt\<close>

text \<open>
  Claim C8. At a choice prompt, a line that is \<^verbatim>\<open>quit\<close> or \<^verbatim>\<open>exit\<close> once stripped and
  lowercased ends the program with the farewell message: \<^verbatim>\<open>SystemExit\<close> is raised, no
  handler has run (the game state is untouched, whatever the choices are), and whatever
  would follow the prompt is skipped. The end of the input gives the same outcome.
\<close>

theorem prompt_choice_quit:
  "(inp w = [] \<longrightarrow>
      prompt_choice question choices w =
        Raised SystemExit (w\<lparr>out := out w @ menu question choices @ [Prompt ''> '', Say T_farewell]\<rparr>))
   \<and> (inp w = l # ls \<and> lower (strip l) \<in> {''quit'', ''exit''} \<longrightarrow>
      prompt_choice question choices w =
        Raised SystemExit (w\<lparr>out := out w @ menu question choices @ [Prompt ''> '', Say T_farewell],
                             inp := ls\<rparr>))
   \<and> (inp w = [] \<or> (inp w = l # ls \<and> lower (strip l) \<in> {''quit'', ''exit''}) \<longrightarrow>
      and_then (prompt_choice question choices) k w = prompt_choice question choices w)"
  by (auto simp add: prompt_choice.simps[of question choices w] farewell_Raised Let_def and_then_def)

theorem prompt_choice_quit_witness:
  "prompt_choice Q_advance [(L_rest, take_rest)] \<lparr>gs = initial_state, out = [], inp = []\<rparr> =
     Raised SystemExit
       \<lparr>gs = initial_state,
        out = [Say (T_question Q_advance), Item 1 L_rest, Prompt ''> '', Say T_farewell],
        inp = []\<rparr>
   \<and> prompt_choice Q_advance [(L_rest, take_rest)]
        \<lparr>gs = initial_state, out = [], inp = [''  QuIt '', ''1'']\<rparr> =
     Raised SystemExit
       \<lparr>gs = initial_state,
        out = [Say (T_question Q_advance), Item 1 L_rest, Prompt ''> '', Say T_farewell],
        inp = [''1'']\<rparr>"
proof -
  have quit: "lower (strip ''  QuIt '') \<in> {''quit'', ''exit''}"
    by code_simp
  show ?thesis
    using quit
      prompt_choice_quit[where w = "\<lparr>gs = initial_state, out = [], inp = []\<rparr>"
        and question = Q_advance and choices = "[(L_rest, take_rest)]"]
      prompt_choice_quit[where w = "\<lparr>gs = initial_state, out = [], inp = [''  QuIt '', ''1'']\<rparr>"
        and l = "''  QuIt ''" and ls = "[''1'']" and question = Q_advance
        and choices = "[(L_rest, take_rest)]"]
    by (simp add: menu_def)
qed

subsection \<open>Choosing an entry of a menu\<close>

lemma prompt_choice_pick:
  assumes "inp w = l # ls"
    and "lower (strip l) \<notin> {''quit'', ''exit''}"
    and "isdigit (strip l)"
    and "int_of_str (strip l) = Some v"
    and "1 \<le> v" and "v \<le> int (length choices)"
  shows "prompt_choice question choices w =
           snd (choices ! nat (v - 1))
             (w\<lparr>out := out w @ menu question choices @ [Prompt ''> ''], inp := ls\<rparr>)"
  using assms by (subst prompt_choice.simps) (simp add: Let_def)

lemma one_is_a_choice:
  "lower ''1'' \<notin> {''quit'', ''exit''} \<and> isdigit ''1'' \<and> int_of_str ''1'' = Some 1"
  by code_simp

lemma two_is_a_choice:
  "strip ''2'' = ''2'' \<and> lower ''2'' \<notin> {''quit'', ''exit''} \<and> isdigit ''2'' \<and> int_of_str ''2'' = Some 2"
  by code_simp

subsection \<open>Approaching a draining planet without the energy for it\<close>

lemma approach_overdrawn_run:
  assumes "\<not> is_beneficial encounter"
    and "current (energy (gs w)) < penalty encounter"
    and "0 \<le> penalty encounter"
  shows "approach encounter resolved w =
           Raised SystemExit
             (w\<lparr>gs := (gs w)\<lparr>energy := (energy (gs w))\<lparr>current := 0\<rparr>\<rparr>,
                out := out w @ [Say T_drains_too_much, Blank, Say T_extinguished]\<rparr>)"
  using assms
  by (simp add: approach_def prog_defs can_spend_def spend_def check_energy_run)

text \<open>
  Claim C5. When the player approaches a draining encounter whose penalty exceeds the
  current energy, \<^verbatim>\<open>spend\<close> fails and leaves \<^verbatim>\<open>current\<close> at 0, \<^verbatim>\<open>check_energy\<close> prints the
  ending and raises \<^verbatim>\<open>SystemExit\<close>, the menu of resist, ally and rest is never printed and
  no further line is read, and \<^verbatim>\<open>negative_influence\<close> and \<^verbatim>\<open>entity_presence\<close> are those of
  before. The same holds of the whole of \<^verbatim>\<open>interact_with_planet\<close> when the player answers 1
  to its menu: the exception leaves it before the adjustment of \<^verbatim>\<open>entity_trust\<close>. The
  penalty is taken to be non-negative, as it is in the four encounters of the script.
\<close>

theorem approach_overdrawn:
  assumes "\<not> is_beneficial encounter"
    and "current (energy (gs w)) < penalty encounter"
    and "0 \<le> penalty encounter"
  shows "approach encounter resolved w =
           Raised SystemExit
             (w\<lparr>gs := (gs w)\<lparr>energy := (energy (gs w))\<lparr>current := 0\<rparr>\<rparr>,
                out := out w @ [Say T_drains_too_much, Blank, Say T_extinguished]\<rparr>)
         \<and> (inp w = l # ls \<and> strip l = ''1'' \<longrightarrow>
              interact_with_planet encounter w =
                Raised SystemExit
                  (w\<lparr>gs := (gs w)\<lparr>energy := (energy (gs w))\<lparr>current := 0\<rparr>\<rparr>,
                     out := out w @
                       [Blank, Say (T_prose (description encounter)),
                        Say (T_question Q_approach),
                        Item 1 L_approach, Item 2 L_keep_distance, Item 3 L_ask_entity, Item 4 L_rest,
                        Prompt ''> '',
                        Say T_drains_too_much, Blank, Say T_extinguished],
                     inp := ls\<rparr>))"
proof (intro conjI impI)
  show "approach encounter resolved w =
           Raised SystemExit
             (w\<lparr>gs := (gs w)\<lparr>energy := (energy (gs w))\<lparr>current := 0\<rparr>\<rparr>,
                out := out w @ [Say T_drains_too_much, Blank, Say T_extinguished]\<rparr>)"
    using assms by (rule approach_overdrawn_run)
next
  assume line: "inp w = l # ls \<and> strip l = ''1''"
  let ?w1 = "w\<lparr>out := out w @ [Blank, Say (T_prose (description encounter))]\<rparr>"
  let ?choices = "[(L_approach, approach encounter False),
        (L_keep_distance, keep_distance False),
        (L_ask_entity, ask_entity encounter False),
        (L_rest, seq take_rest (return False))]"
  let ?w2 = "?w1\<lparr>out := out ?w1 @ menu Q_approach ?choices @ [Prompt ''> ''], inp := ls\<rparr>"
  have pick: "planet_menu encounter ?w1 = approach encounter False ?w2"
    unfolding planet_menu_def
    using line one_is_a_choice
    by (subst prompt_choice_pick[where l = l and ls = ls and v = 1]) simp_all
  have "approach encounter False ?w2 =
          Raised SystemExit
             (?w2\<lparr>gs := (gs ?w2)\<lparr>energy := (energy (gs ?w2))\<lparr>current := 0\<rparr>\<rparr>,
                out := out ?w2 @ [Say T_drains_too_much, Blank, Say T_extinguished]\<rparr>)"
    using assms by (intro approach_overdrawn_run) simp_all
  with pick show "interact_with_planet encounter w =
                Raised SystemExit
                  (w\<lparr>gs := (gs w)\<lparr>energy := (energy (gs w))\<lparr>current := 0\<rparr>\<rparr>,
                     out := out w @
                       [Blank, Say (T_prose (description encounter)),
                        Say (T_question Q_approach),
                        Item 1 L_approach, Item 2 L_keep_distance, Item 3 L_ask_entity, Item 4 L_rest,
                        Prompt ''> '',
                        Say T_drains_too_much, Blank, Say T_extinguished],
                     inp := ls\<rparr>)"
    by (simp add: interact_with_planet_def prog_defs menu_def)
qed

theorem approach_overdrawn_witness:
  "approach tourmente False
      \<lparr>gs = initial_state\<lparr>energy := \<lparr>current = 2, maximum = 12\<rparr>\<rparr>, out = [], inp = [''1'']\<rparr> =
     Raised SystemExit
       \<lparr>gs = initial_state\<lparr>energy := \<lparr>current = 0, maximum = 12\<rparr>\<rparr>,
        out = [Say T_drains_too_much, Blank, Say T_extinguished], inp = [''1'']\<rparr>
   \<and> interact_with_planet tourmente
      \<lparr>gs = initial_state\<lparr>energy := \<lparr>current = 2, maximum = 12\<rparr>\<rparr>, out = [], inp = [''1'']\<rparr> =
     Raised SystemExit
       \<lparr>gs = initial_state\<lparr>energy := \<lparr>current = 0, maximum = 12\<rparr>\<rparr>,
        out = [Blank, Say (T_prose D_tourmente), Say (T_question Q_approach),
               Item 1 L_approach, Item 2 L_keep_distance, Item 3 L_ask_entity, Item 4 L_rest,
               Prompt ''> '', Say T_drains_too_much, Blank, Say T_extinguished],
        inp = []\<rparr>"
proof -
  have one: "strip ''1'' = ''1''" by code_simp
  show ?thesis
    using one approach_overdrawn[where encounter = tourmente and resolved = False
        and w = "\<lparr>gs = initial_state\<lparr>energy := \<lparr>current = 2, maximum = 12\<rparr>\<rparr>, out = [], inp = [''1'']\<rparr>"
        and l = "''1''" and ls = "[]"]
    by (simp add: tourmente_def encounters_def is_beneficial_def initial_state_def)
qed

subsection \<open>The adjustment of entity\_trust after an encounter\<close>

text \<open>
  Claim C7. Once the menu of an encounter has returned, \<^verbatim>\<open>entity_trust\<close> is raised by 1 if
  the encounter is beneficial (\<^verbatim>\<open>resolved\<close> is always true by then), lowered by 1 but not
  below -3 if the encounter is draining and \<^verbatim>\<open>negative_influence > 0\<close>, and left as it
  is otherwise; nothing else changes.
\<close>

theorem trust_adjustment_contract:
  "trust_adjustment encounter resolved w =
     Done () (w\<lparr>gs := (gs w)\<lparr>entity_trust :=
        (if is_beneficial encounter then entity_trust (gs w) + 1
         else if negative_influence (gs w) > 0 then max (entity_trust (gs w) - 1) (- 3)
         else entity_trust (gs w))\<rparr>\<rparr>)
   \<and> interact_with_planet encounter w =
       (case planet_menu encounter (w\<lparr>out := out w @ [Blank, Say (T_prose (description encounter))]\<rparr>) of
          Raised x w1 \<Rightarrow> Raised x w1
        | Done r w1 \<Rightarrow> trust_adjustment encounter r w1)"
  by (simp add: trust_adjustment_def interact_with_planet_def prog_defs)

theorem trust_adjustment_contract_witness:
  "trust_adjustment (encounters ! 0) True \<lparr>gs = initial_state, out = [], inp = []\<rparr> =
     Done () \<lparr>gs = initial_state\<lparr>entity_trust := 1\<rparr>, out = [], inp = []\<rparr>
   \<and> trust_adjustment tourmente True
        \<lparr>gs = initial_state\<lparr>negative_influence := 1, entity_trust := - 3\<rparr>, out = [], inp = []\<rparr> =
     Done () \<lparr>gs = initial_state\<lparr>negative_influence := 1, entity_trust := - 3\<rparr>, out = [], inp = []\<rparr>
   \<and> trust_adjustment tourmente True
        \<lparr>gs = initial_state\<lparr>negative_influence := 1\<rparr>, out = [], inp = []\<rparr> =
     Done () \<lparr>gs = initial_state\<lparr>negative_influence := 1, entity_trust := - 1\<rparr>, out = [], inp = []\<rparr>
   \<and> trust_adjustment tourmente True \<lparr>gs = initial_state, out = [], inp = []\<rparr> =
     Done () \<lparr>gs = initial_state, out = [], inp = []\<rparr>
   \<and> interact_with_planet tourmente
        \<lparr>gs = initial_state\<lparr>negative_influence := 1\<rparr>, out = [], inp = [''2'']\<rparr> =
     Done () \<lparr>gs = initial_state\<lparr>negative_influence := 1, entity_trust := - 1\<rparr>,
              out = [Blank, Say (T_prose D_tourmente), Say (T_question Q_approach),
                     Item 1 L_approach, Item 2 L_keep_distance, Item 3 L_ask_entity, Item 4 L_rest,
                     Prompt ''> '', Say T_keep_distance],
              inp = []\<rparr>"
proof -
  let ?w = "\<lparr>gs = initial_state\<lparr>negative_influence := 1\<rparr>, out = [], inp = [''2'']\<rparr>"
  have menu: "planet_menu tourmente (?w\<lparr>out := out ?w @ [Blank, Say (T_prose (description tourmente))]\<rparr>) =
      Done True \<lparr>gs = initial_state\<lparr>negative_influence := 1\<rparr>,
              out = [Blank, Say (T_prose D_tourmente), Say (T_question Q_approach),
                     Item 1 L_approach, Item 2 L_keep_distance, Item 3 L_ask_entity, Item 4 L_rest,
                     Prompt ''> '', Say T_keep_distance],
              inp = []\<rparr>"
    unfolding planet_menu_def
    using two_is_a_choice
    by (subst prompt_choice_pick[where l = "''2''" and ls = "[]" and v = 2])
       (simp_all add: keep_distance_def prog_defs menu_def tourmente_def encounters_def)
  let ?w1 = "\<lparr>gs = initial_state\<lparr>negative_influence := 1\<rparr>,
              out = [Blank, Say (T_prose D_tourmente), Say (T_question Q_approach),
                     Item 1 L_approach, Item 2 L_keep_distance, Item 3 L_ask_entity, Item 4 L_rest,
                     Prompt ''> '', Say T_keep_distance],
              inp = []\<rparr>"
  have run: "interact_with_planet tourmente ?w = trust_adjustment tourmente True ?w1"
    using menu trust_adjustment_contract[where encounter = tourmente and w = ?w]
    by simp
  have draining: "\<not> is_beneficial tourmente" "is_beneficial (encounters ! 0)"
    by (simp_all add: tourmente_def encounters_def is_beneficial_def)
  show ?thesis
    unfolding run
    using draining
      trust_adjustment_contract[where encounter = "encounters ! 0" and resolved = True
        and w = "\<lparr>gs = initial_state, out = [], inp = []\<rparr>"]
      trust_adjustment_contract[where encounter = tourmente and resolved = True
        and w = "\<lparr>gs = initial_state\<lparr>negative_influence := 1, entity_trust := - 3\<rparr>, out = [], inp = []\<rparr>"]
      trust_adjustment_contract[where encounter = tourmente and resolved = True
        and w = "\<lparr>gs = initial_state\<lparr>negative_influence := 1\<rparr>, out = [], inp = []\<rparr>"]
      trust_adjustment_contract[where encounter = tourmente and resolved = True
        and w = "\<lparr>gs = initial_state, out = [], inp = []\<rparr>"]
      trust_adjustment_contract[where encounter = tourmente and resolved = True and w = ?w1]
    by (simp add: initial_state_def)
qed

subsection \<open>Learning the same skill twice\<close>

lemma learn_again:
  "skill_key \<in> acquired \<Longrightarrow>
   learn skill_key acquired w = Done acquired (w\<lparr>out := out w @ [Say T_already_bright]\<rparr>)"
  by (simp add: learn_def prog_defs)

lemma skill_catalog_cases:
  assumes "(skill_key, nm, descr, cost) \<in> set skill_catalog"
  shows "map_of skill_catalog skill_key = Some (nm, descr, cost) \<and> 0 \<le> cost"
  using assms by (auto simp add: skill_catalog_def)

lemma skill_loop_invest_first:
  assumes "inp w = ''1'' # ls"
  shows "skill_loop acquired w =
     (case learn ''solidarite'' acquired
             (w\<lparr>out := out w @ menu Q_branch (skill_options acquired) @ [Prompt ''> ''],
                inp := ls\<rparr>) of
        Raised e w1 \<Rightarrow> Raised e w1
      | Done a w1 \<Rightarrow>
          (case check_energy w1 of
             Raised e w2 \<Rightarrow> Raised e w2
           | Done _ w2 \<Rightarrow> skill_loop a w2))"
proof -
  have one: "strip ''1'' = ''1''" by code_simp
  have pick: "prompt_choice Q_branch (skill_options acquired) w =
      snd (skill_options acquired ! nat (1 - 1))
        (w\<lparr>out := out w @ menu Q_branch (skill_options acquired) @ [Prompt ''> ''], inp := ls\<rparr>)"
    using assms one one_is_a_choice
    by (intro prompt_choice_pick[where l = "''1''"]) (simp_all add: skill_options_def skill_catalog_def)
  show ?thesis
    by (subst skill_loop.simps, subst pick)
       (simp add: skill_options_def skill_catalog_def prog_defs split: outcome.splits)
qed

lemma skill_loop_eof:
  assumes "inp w = []"
  shows "skill_loop acquired w =
     Raised SystemExit
       (w\<lparr>out := out w @ menu Q_branch (skill_options acquired) @ [Prompt ''> '', Say T_farewell]\<rparr>)"
  using assms
  by (subst skill_loop.simps, subst prompt_choice.simps) (simp add: farewell_Raised)

definition first_world :: world where
  "first_world = \<lparr>gs = initial_state, out = [], inp = [''1'', ''1'']\<rparr>"

text \<open>
  Claim C6. Learning a skill of the catalogue that is not yet acquired, with at least the
  energy it costs, deducts the cost once and appends the name of the skill to \<^verbatim>\<open>skills\<close>
  once; with more energy than it costs the call returns, having recorded the key (with
  exactly the cost, \<^verbatim>\<open>check_energy\<close> ends the run there). Learning the skill again, in any
  state, only prints that the branch already shines: no energy is spent and \<^verbatim>\<open>skills\<close> is
  unchanged. The example runs the loop of \<^verbatim>\<open>run_skill_tree\<close> from the initial state on the
  answers 1 and 1: the first skill, of cost 2, is held once and the energy is 8.
\<close>

theorem learn_twice:
  assumes "(skill_key, nm, descr, cost) \<in> set skill_catalog"
    and "skill_key \<notin> acquired"
    and "cost \<le> current (energy (gs w))"
  shows "gs (final (learn skill_key acquired w)) =
           (gs w)\<lparr>energy := (energy (gs w))\<lparr>current := current (energy (gs w)) - cost\<rparr>,
                   skills := skills (gs w) @ [nm]\<rparr>
         \<and> (cost < current (energy (gs w)) \<longrightarrow>
              learn skill_key acquired w =
                Done (insert skill_key acquired)
                  (w\<lparr>gs := (gs w)\<lparr>energy := (energy (gs w))\<lparr>current := current (energy (gs w)) - cost\<rparr>,
                                  skills := skills (gs w) @ [nm]\<rparr>,
                     out := out w @
                       [Say (T_nourish nm), Say (T_prose descr),
                        Say (T_energy_left (current (energy (gs w)) - cost) (maximum (energy (gs w))))]\<rparr>))
         \<and> (\<forall>w'. learn skill_key (insert skill_key acquired) w' =
                   Done (insert skill_key acquired) (w'\<lparr>out := out w' @ [Say T_already_bright]\<rparr>))"
proof -
  from skill_catalog_cases[OF assms(1)]
  have entry: "map_of skill_catalog skill_key = Some (nm, descr, cost)" and cost: "0 \<le> cost"
    by simp_all
  have first: "learn skill_key acquired w =
      seq check_energy (return (insert skill_key acquired))
        (w\<lparr>gs := (gs w)\<lparr>energy := (energy (gs w))\<lparr>current := current (energy (gs w)) - cost\<rparr>,
                        skills := skills (gs w) @ [nm]\<rparr>,
           out := out w @
             [Say (T_nourish nm), Say (T_prose descr),
              Say (T_energy_left (current (energy (gs w)) - cost) (maximum (energy (gs w))))]\<rparr>)"
    using assms(2,3) entry cost
    by (simp add: learn_def prog_defs can_spend_def spend_def)
  show ?thesis
    unfolding first
    by (simp add: learn_again seq_def and_then_def return_def check_energy_run)
qed

theorem learn_twice_witness:
  "gs (final (run_skill_tree first_world)) =
     initial_state\<lparr>energy := \<lparr>current = 8, maximum = 12\<rparr>, skills := [name_solidarite]\<rparr>
   \<and> filter (\<lambda>l. l = Say (T_nourish name_solidarite) \<or> l = Say T_already_bright)
        (out (final (run_skill_tree first_world))) =
     [Say (T_nourish name_solidarite), Say T_already_bright]"
proof -
  let ?w0 = "\<lparr>gs = initial_state, out = [Blank, Say T_tree], inp = [''1'', ''1'']\<rparr>"
  let ?w1 = "?w0\<lparr>out := out ?w0 @ menu Q_branch (skill_options {}) @ [Prompt ''> ''], inp := [''1'']\<rparr>"
  let ?w2 = "?w1\<lparr>gs := (gs ?w1)\<lparr>energy := (energy (gs ?w1))\<lparr>current := current (energy (gs ?w1)) - 2\<rparr>,
                             skills := skills (gs ?w1) @ [name_solidarite]\<rparr>,
                out := out ?w1 @
                  [Say (T_nourish name_solidarite), Say (T_prose D_solidarite),
                   Say (T_energy_left (current (energy (gs ?w1)) - 2) (maximum (energy (gs ?w1))))]\<rparr>"
  let ?w3 = "?w2\<lparr>out := out ?w2 @ menu Q_branch (skill_options {''solidarite''}) @ [Prompt ''> ''], inp := []\<rparr>"
  let ?w4 = "?w3\<lparr>out := out ?w3 @ [Say T_already_bright]\<rparr>"
  have twice: "learn ''solidarite'' {} ?w1 = Done {''solidarite''} ?w2
      \<and> (\<forall>w'. learn ''solidarite'' {''solidarite''} w' =
                   Done {''solidarite''} (w'\<lparr>out := out w' @ [Say T_already_bright]\<rparr>))"
    using learn_twice[where skill_key = "''solidarite''" and nm = name_solidarite
        and descr = D_solidarite and cost = 2 and acquired = "{}" and w = ?w1]
    by (simp add: skill_catalog_def initial_state_def)
  have a: "skill_loop {} ?w0 = skill_loop {''solidarite''} ?w2"
    using twice
    by (subst skill_loop_invest_first[where ls = "[''1'']"])
       (simp_all add: check_energy_run initial_state_def)
  have b: "skill_loop {''solidarite''} ?w2 = skill_loop {''solidarite''} ?w4"
    using twice
    by (subst skill_loop_invest_first[where ls = "[]"])
       (simp_all add: check_energy_run initial_state_def)
  have c: "skill_loop {''solidarite''} ?w4 =
     Raised SystemExit
       (?w4\<lparr>out := out ?w4 @ menu Q_branch (skill_options {''solidarite''}) @ [Prompt ''> '', Say T_farewell]\<rparr>)"
    by (rule skill_loop_eof) simp
  have run: "run_skill_tree first_world =
     Raised SystemExit
       (?w4\<lparr>out := out ?w4 @ menu Q_branch (skill_options {''solidarite''}) @ [Prompt ''> '', Say T_farewell]\<rparr>)"
    using a b c by (simp add: run_skill_tree_def first_world_def prog_defs)
  show ?thesis
    unfolding run
    by (simp add: menu_def skill_options_def skill_catalog_def initial_state_def)
qed

subsection \<open>The state invariant\<close>

text \<open>
  The bounds the data model gives: the energy between 0 and its maximum, the presence of
  the entity between 0 and 4, the negative influence not below 0. A computation preserves
  them when the state it leaves behind has them whenever the state it started from had,
  whether it returns or raises.
\<close>

definition pool_ok :: "EnergyPool \<Rightarrow> bool" where
  "pool_ok p = (0 \<le> current p \<and> current p \<le> maximum p)"

definition state_ok :: "GameState \<Rightarrow> bool" where
  "state_ok s =
     (pool_ok (energy s)
      \<and> 0 \<le> entity_presence s \<and> entity_presence s \<le> 4
      \<and> 0 \<le> negative_influence s)"

definition preserves :: "'a prog \<Rightarrow> bool" where
  "preserves m = (\<forall>w. state_ok (gs w) \<longrightarrow> state_ok (gs (final (m w))))"

text \<open>The rules for the building blocks of computations.\<close>

lemma preservesI: "(\<And>w. state_ok (gs w) \<Longrightarrow> state_ok (gs (final (m w)))) \<Longrightarrow> preserves m"
  by (simp add: preserves_def)

lemma preservesD: "preserves m \<Longrightarrow> state_ok (gs w) \<Longrightarrow> state_ok (gs (final (m w)))"
  by (simp add: preserves_def)

lemma preserves_return: "preserves (return a)"
  by (simp add: preserves_def return_def)

lemma preserves_raise: "preserves (raise e)"
  by (simp add: preserves_def raise_def)

lemma preserves_gets: "preserves (gets f)"
  by (simp add: preserves_def gets_def)

lemma preserves_emit: "preserves (emit l)"
  by (simp add: preserves_def emit_def)

lemma preserves_print_wrapped: "preserves (print_wrapped t)"
  by (simp add: print_wrapped_def preserves_emit)

lemma preserves_print_blank: "preserves print_blank"
  by (simp add: print_blank_def preserves_emit)

lemma preserves_modify:
  "(\<And>s. state_ok s \<Longrightarrow> state_ok (f s)) \<Longrightarrow> preserves (modify f)"
  by (simp add: preserves_def modify_def)

lemma preserves_and_then:
  assumes "preserves m" and "\<And>a. preserves (f a)"
  shows "preserves (and_then m f)"
proof (rule preservesI)
  fix w :: world assume ok: "state_ok (gs w)"
  show "state_ok (gs (final (and_then m f w)))"
  proof (cases "m w")
    case (Done a w')
    with preservesD[OF assms(1) ok] have "state_ok (gs w')" by simp
    from preservesD[OF assms(2) this] Done show ?thesis by (simp add: and_then_def)
  next
    case (Raised e w')
    with preservesD[OF assms(1) ok] show ?thesis by (simp add: and_then_def)
  qed
qed

lemma preserves_seq: "preserves m \<Longrightarrow> preserves k \<Longrightarrow> preserves (seq m k)"
  by (simp add: seq_def preserves_and_then)

lemma preserves_print_fmt: "preserves (print_fmt f)"
  by (simp add: print_fmt_def preserves_and_then preserves_gets preserves_print_wrapped)

lemma spend_pool_ok:
  "pool_ok p \<Longrightarrow> spend p amount = Inr (ok, p') \<Longrightarrow> pool_ok p'"
  by (auto simp add: spend_def can_spend_def pool_ok_def split: if_splits)

lemma restore_pool_ok:
  "pool_ok p \<Longrightarrow> restore p amount = Inr p' \<Longrightarrow> pool_ok p'"
  by (auto simp add: restore_def pool_ok_def split: if_splits)

lemma preserves_energy_spend: "preserves (energy_spend amount)"
  by (rule preservesI)
     (auto simp add: energy_spend_def state_ok_def split: sum.splits dest: spend_pool_ok)

lemma preserves_energy_restore: "preserves (energy_restore amount)"
  by (rule preservesI)
     (auto simp add: energy_restore_def state_ok_def split: sum.splits dest: restore_pool_ok)

lemma preserves_input: "preserves (input prompt)"
  by (rule preservesI) (simp add: input_def Let_def split: list.splits)

lemma preserves_farewell: "preserves farewell"
  by (simp add: farewell_def preserves_seq preserves_print_wrapped preserves_raise)

lemmas preserves_intros =
  preserves_return preserves_raise preserves_gets preserves_emit preserves_print_wrapped
  preserves_print_blank preserves_print_fmt preserves_modify preserves_and_then preserves_seq
  preserves_energy_spend preserves_energy_restore preserves_input preserves_farewell

text \<open>A menu preserves the bounds if each of its handlers does, and so does a loop over a
  list if its body does.\<close>

lemma preserves_prompt_choice_aux:
  assumes handlers: "\<And>h. h \<in> snd ` set choices \<Longrightarrow> preserves h"
  shows "inp w = xs \<Longrightarrow> state_ok (gs w) \<Longrightarrow> state_ok (gs (final (prompt_choice q choices w)))"
proof (induction xs arbitrary: w)
  case Nil
  then show ?case
    by (simp add: prompt_choice.simps[of q choices w] farewell_Raised)
next
  case (Cons l ls)
  let ?w2 = "w\<lparr>out := out w @ menu q choices @ [Prompt ''> ''], inp := ls\<rparr>"
  from Cons.prems(1) have step: "prompt_choice q choices w =
      (if lower (strip l) \<in> {''quit'', ''exit''} then farewell ?w2
       else if \<not> isdigit (strip l) then
         prompt_choice q choices (?w2\<lparr>out := out ?w2 @ [Say T_enter_number]\<rparr>)
       else (case int_of_str (strip l) of
               None \<Rightarrow> Raised ValueError ?w2
             | Some v \<Rightarrow>
                 if \<not> (1 \<le> v \<and> v \<le> int (length choices)) then
                   prompt_choice q choices (?w2\<lparr>out := out ?w2 @ [Say T_invalid_choice]\<rparr>)
                 else snd (choices ! nat (v - 1)) ?w2))"
    by (subst prompt_choice.simps) (simp add: Let_def)
  have again: "state_ok (gs (final (prompt_choice q choices (?w2\<lparr>out := out ?w2 @ [t]\<rparr>))))" for t
    using Cons.prems(2) by (intro Cons.IH) simp_all
  have call: "state_ok (gs (final (snd (choices ! nat (v - 1)) ?w2)))"
    if "1 \<le> v" "v \<le> int (length choices)" for v
  proof -
    from that have "nat (v - 1) < length choices" by simp
    then have "snd (choices ! nat (v - 1)) \<in> snd ` set choices" by simp
    from preservesD[OF handlers[OF this]] Cons.prems(2) show ?thesis by simp
  qed
  show ?case
    unfolding step using again call Cons.prems(2)
    by (auto simp add: farewell_Raised split: option.splits)
qed

lemma preserves_prompt_choice:
  "(\<And>h. h \<in> snd ` set choices \<Longrightarrow> preserves h) \<Longrightarrow> preserves (prompt_choice q choices)"
  by (rule preservesI) (rule preserves_prompt_choice_aux[OF _ refl])

lemma preserves_for_each:
  "(\<And>x. x \<in> set xs \<Longrightarrow> preserves (body x)) \<Longrightarrow> preserves (for_each body xs)"
  by (induction xs) (simp_all add: preserves_return preserves_seq)

text \<open>The handlers, in the order of the script.\<close>

lemma preserves_check_energy: "preserves check_energy"
  unfolding check_energy_def by (auto intro!: preserves_intros)

lemma preserves_rest: "preserves (rest reason)"
  unfolding rest_def Let_def
  by (auto intro!: preserves_intros simp add: state_ok_def split: option.splits)

lemma preserves_resist: "preserves resist_exhausting_planet"
  unfolding resist_exhausting_planet_def
  by (auto intro!: preserves_intros preserves_rest preserves_check_energy simp add: state_ok_def)

lemma preserves_call_allies: "preserves (call_allies_against_planet encounter)"
  unfolding call_allies_against_planet_def
  by (auto intro!: preserves_intros simp add: state_ok_def split: list.splits)

lemma preserves_guidance:
  "preserves (foldr (\<lambda>g k. seq (print_wrapped (T_guidance g)) k) gl (return ()))"
  by (induction gl) (simp_all add: preserves_intros)

lemma preserves_consult: "preserves (consult_wise_entity encounter)"
  unfolding consult_wise_entity_def Let_def
  by (auto intro!: preserves_intros preserves_guidance simp add: state_ok_def)

lemma preserves_learn: "preserves (learn skill_key acquired)"
  unfolding learn_def
  by (auto intro!: preserves_intros preserves_rest preserves_check_energy
        simp add: state_ok_def split: option.splits)

lemma preserves_skill_options:
  "h \<in> snd ` set (skill_options acquired) \<Longrightarrow> preserves h"
  unfolding skill_options_def skill_catalog_def continue_route_def
  by (auto intro!: preserves_intros preserves_learn preserves_rest)

lemma preserves_skill_loop_aux:
  "state_ok (gs w) \<longrightarrow> state_ok (gs (final (skill_loop acquired w)))"
proof (induction acquired w rule: skill_loop.induct)
  case (1 acquired w)
  show ?case
  proof
    assume ok: "state_ok (gs w)"
    have menu: "state_ok (gs (final (prompt_choice Q_branch (skill_options acquired) w)))"
      using preserves_prompt_choice[OF preserves_skill_options] ok by (rule preservesD)
    show "state_ok (gs (final (skill_loop acquired w)))"
    proof (cases "prompt_choice Q_branch (skill_options acquired) w")
      case (Raised e w1)
      with menu show ?thesis by (simp add: skill_loop.simps[of acquired w])
    next
      case (Done r w1)
      obtain acquired1 finished where r: "r = (acquired1, finished)" by (cases r)
      from menu Done have ok1: "state_ok (gs w1)" by simp
      show ?thesis
      proof (cases finished)
        case True
        with Done r ok1 show ?thesis by (simp add: skill_loop.simps[of acquired w])
      next
        case False
        show ?thesis
        proof (cases "check_energy w1")
          case (Raised e w2)
          with preservesD[OF preserves_check_energy ok1] Done r False show ?thesis
            by (simp add: skill_loop.simps[of acquired w])
        next
          case inner: (Done u w2)
          with preservesD[OF preserves_check_energy ok1] have "state_ok (gs w2)" by simp
          with "1.IH"[OF Done[unfolded r] _ False inner] Done r False inner show ?thesis
            by (simp add: skill_loop.simps[of acquired w])
        qed
      qed
    qed
  qed
qed

lemma preserves_skill_loop: "preserves (skill_loop acquired)"
  by (rule preservesI) (simp add: preserves_skill_loop_aux)

lemma preserves_run_skill_tree: "preserves run_skill_tree"
  unfolding run_skill_tree_def
  by (intro preserves_intros preserves_skill_loop)

lemma preserves_introduce_story: "preserves introduce_story"
  unfolding introduce_story_def by (intro preserves_intros)

lemma preserves_cat: "preserves encounter_cat_planet"
  unfolding encounter_cat_planet_def Let_def
  by (intro preserves_intros | simp add: state_ok_def)+

lemma preserves_approach: "preserves (approach encounter resolved)"
  unfolding approach_def
  by (auto intro!: preserves_intros preserves_check_energy preserves_prompt_choice
        preserves_resist preserves_call_allies preserves_rest
        simp add: state_ok_def)

lemma preserves_keep_distance: "preserves (keep_distance resolved)"
  unfolding keep_distance_def by (intro preserves_intros)

lemma preserves_ask_entity: "preserves (ask_entity encounter resolved)"
  unfolding ask_entity_def by (intro preserves_intros preserves_consult)

lemma preserves_take_rest: "preserves take_rest"
  by (simp add: take_rest_def preserves_rest)

lemma preserves_planet_menu: "preserves (planet_menu encounter)"
  unfolding planet_menu_def
  by (auto intro!: preserves_prompt_choice preserves_intros preserves_approach
        preserves_keep_distance preserves_ask_entity preserves_take_rest)

lemma preserves_trust_adjustment: "preserves (trust_adjustment encounter resolved)"
  unfolding trust_adjustment_def Let_def
  by (auto intro!: preserves_intros simp add: state_ok_def)

lemma preserves_interact: "preserves (interact_with_planet encounter)"
  unfolding interact_with_planet_def
  by (intro preserves_intros preserves_planet_menu preserves_trust_adjustment)

lemma preserves_travel: "preserves travel_among_planets"
  unfolding travel_among_planets_def
  by (intro preserves_intros preserves_for_each preserves_interact preserves_check_energy)

lemma preserves_gain_clarity: "preserves (gain_clarity amount)"
  unfolding gain_clarity_def
  by (intro preserves_intros | simp add: state_ok_def)+

lemma preserves_gamble: "preserves (gamble_energy gain cost)"
  unfolding gamble_energy_def
  by (auto intro!: preserves_intros preserves_check_energy)

lemma preserves_bolster: "preserves bolster_presence"
  unfolding bolster_presence_def
  by (intro preserves_intros | simp add: state_ok_def)+

lemma preserves_soothe: "preserves soothe_influences"
  unfolding soothe_influences_def
  by (intro preserves_intros | simp add: state_ok_def)+

lemma preserves_share: "preserves share_burden"
  unfolding share_burden_def
  by (auto intro!: preserves_intros)

lemma preserves_weave: "preserves weave_support"
  unfolding weave_support_def Let_def
  by (auto intro!: preserves_intros simp add: state_ok_def)

lemma preserves_orchestrate: "preserves orchestrate_alliance"
  unfolding orchestrate_alliance_def
  by (intro preserves_intros | simp add: state_ok_def)+

lemma preserves_conclude: "preserves conclude_journey"
  unfolding conclude_journey_def
  by (auto intro!: preserves_intros)

lemma preserves_stage_effects:
  "stage \<in> set stages \<Longrightarrow>
   preserves (listening_effect stage) \<and> preserves (impulse_effect stage) \<and> preserves (help_effect stage)"
  by (auto simp add: stages_def preserves_gain_clarity preserves_gamble preserves_bolster
        preserves_soothe preserves_share preserves_weave preserves_orchestrate)

lemma preserves_listen: "stage \<in> set stages \<Longrightarrow> preserves (listen stage)"
  unfolding listen_def
  by (auto intro!: preserves_intros simp add: preserves_stage_effects)

lemma preserves_follow_impulse: "stage \<in> set stages \<Longrightarrow> preserves (follow_impulse stage)"
  unfolding follow_impulse_def
  by (auto intro!: preserves_intros simp add: preserves_stage_effects)

lemma preserves_ask_help: "stage \<in> set stages \<Longrightarrow> preserves (ask_help stage)"
  unfolding ask_help_def
  by (auto intro!: preserves_intros simp add: preserves_stage_effects)

lemma preserves_run_stage: "stage \<in> set stages \<Longrightarrow> preserves (run_stage stage)"
  unfolding run_stage_def
  by (auto intro!: preserves_intros preserves_prompt_choice preserves_check_energy
        preserves_listen preserves_follow_impulse preserves_ask_help preserves_take_rest)

lemma preserves_journey: "preserves reincarnation_journey"
  unfolding reincarnation_journey_def
  by (intro preserves_intros preserves_for_each preserves_run_stage preserves_conclude)

lemma preserves_main_prog: "preserves main_prog"
  unfolding main_prog_def
  by (intro preserves_intros preserves_introduce_story preserves_run_skill_tree preserves_cat
        preserves_travel preserves_journey)

lemma state_ok_initial: "state_ok initial_state"
  by (simp add: state_ok_def pool_ok_def initial_state_def)

text \<open>
  Claim C2. The bounds \<^verbatim>\<open>0 <= energy.current <= energy.maximum\<close>,
  \<^verbatim>\<open>0 <= entity_presence <= 4\<close> and \<^verbatim>\<open>negative_influence >= 0\<close> hold of the initial state.
  \<^verbatim>\<open>spend\<close> and \<^verbatim>\<open>restore\<close> with a non-negative amount return and keep the pool within its
  bounds, and every handler of the skill tree, of the encounters and of the reincarnation
  stages preserves the bounds, whatever it is given and however it ends. So does the whole
  script: the state at the end of a run has them for every input.
\<close>

theorem state_invariant:
  "state_ok initial_state
   \<and> (pool_ok p \<and> 0 \<le> amount \<longrightarrow> (\<exists>ok p'. spend p amount = Inr (ok, p') \<and> pool_ok p'))
   \<and> (pool_ok p \<and> 0 \<le> amount \<longrightarrow> (\<exists>p'. restore p amount = Inr p' \<and> pool_ok p'))
   \<and> preserves (rest reason) \<and> preserves check_energy
   \<and> preserves (learn skill_key acquired) \<and> preserves run_skill_tree
   \<and> preserves encounter_cat_planet
   \<and> preserves (approach encounter resolved) \<and> preserves (keep_distance resolved)
   \<and> preserves (ask_entity encounter resolved)
   \<and> preserves resist_exhausting_planet
   \<and> preserves (call_allies_against_planet encounter)
   \<and> preserves (consult_wise_entity consulted)
   \<and> preserves (trust_adjustment encounter resolved)
   \<and> preserves (interact_with_planet encounter) \<and> preserves travel_among_planets
   \<and> preserves (gain_clarity amount) \<and> preserves (gamble_energy gain cost)
   \<and> preserves bolster_presence \<and> preserves soothe_influences \<and> preserves share_burden
   \<and> preserves weave_support \<and> preserves orchestrate_alliance
   \<and> (stage \<in> set stages \<longrightarrow>
        preserves (listen stage) \<and> preserves (follow_impulse stage)
        \<and> preserves (ask_help stage) \<and> preserves (run_stage stage))
   \<and> preserves reincarnation_journey \<and> preserves conclude_journey
   \<and> state_ok (gs (final (main input_lines)))"
proof -
  have pool_spend: "pool_ok p \<and> 0 \<le> amount \<longrightarrow> (\<exists>ok p'. spend p amount = Inr (ok, p') \<and> pool_ok p')"
    by (auto simp add: spend_def can_spend_def pool_ok_def)
  have pool_restore: "pool_ok p \<and> 0 \<le> amount \<longrightarrow> (\<exists>p'. restore p amount = Inr p' \<and> pool_ok p')"
    by (auto simp add: restore_def pool_ok_def)
  have run: "state_ok (gs (final (main input_lines)))"
    unfolding main_def
    by (rule preservesD[OF preserves_main_prog]) (simp add: state_ok_initial)
  show ?thesis
    using pool_spend pool_restore run
    by (simp add: state_ok_initial preserves_rest preserves_check_energy preserves_learn
          preserves_run_skill_tree preserves_cat preserves_approach preserves_keep_distance
          preserves_ask_entity preserves_resist preserves_call_allies preserves_consult
          preserves_trust_adjustment preserves_interact preserves_travel preserves_gain_clarity
          preserves_gamble preserves_bolster preserves_soothe preserves_share preserves_weave
          preserves_orchestrate preserves_listen preserves_follow_impulse preserves_ask_help
          preserves_run_stage preserves_journey preserves_conclude)
qed

definition weary_world :: world where
  "weary_world =
     \<lparr>gs = initial_state\<lparr>energy := \<lparr>current = 3, maximum = 12\<rparr>, entity_presence := 4\<rparr>,
      out = [], inp = []\<rparr>"

theorem state_invariant_witness:
  "state_ok (gs weary_world)
   \<and> spend \<lparr>current = 3, maximum = 12\<rparr> 5 = Inr (False, \<lparr>current = 0, maximum = 12\<rparr>)
   \<and> pool_ok \<lparr>current = 0, maximum = 12\<rparr>
   \<and> state_ok (gs (final (gamble_energy 6 5 weary_world)))
   \<and> state_ok (gs (final (rest None weary_world)))
   \<and> state_ok (gs (final (run_stage (stages ! 4) weary_world)))
   \<and> state_ok (gs (final (main [''1'', ''4'', ''quit''])))"
proof -
  have ok: "state_ok (gs weary_world)"
    by (simp add: weary_world_def state_ok_def pool_ok_def initial_state_def)
  have stage: "stages ! 4 \<in> set stages"
    by (simp add: stages_def)
  note inv = state_invariant[where p = "\<lparr>current = 3, maximum = 12\<rparr>" and amount = 5
      and gain = 6 and cost = 5 and reason = None and stage = "stages ! 4"
      and input_lines = "[''1'', ''4'', ''quit'']"]
  have pool: "spend \<lparr>current = 3, maximum = 12\<rparr> 5 = Inr (False, \<lparr>current = 0, maximum = 12\<rparr>)
      \<and> pool_ok \<lparr>current = 0, maximum = 12\<rparr>"
    using inv by (simp add: pool_ok_def spend_def can_spend_def)
  have gamble: "preserves (gamble_energy 6 5)" and rest: "preserves (rest None)"
    and stage_ok: "preserves (run_stage (stages ! 4))"
    and run: "state_ok (gs (final (main [''1'', ''4'', ''quit''])))"
    using inv stage by simp_all
  show ?thesis
    using ok pool run preservesD[OF gamble ok] preservesD[OF rest ok] preservesD[OF stage_ok ok]
    by simp
qed

end
